theory Spec2Isabelle
  imports Complex_Main "HOL-Library.AList" "HOL-Library.Sublist"
begin

section \<open>The connection manager of app.py\<close>

text \<open>
  The model follows \<^verbatim>\<open>ConnectionManager\<close> of \<^verbatim>\<open>src/app.py\<close>. Mutation of the
  manager is explicit state passing. What a method invocation does to its caller is an
  \<open>outcome\<close>: it returns a value, it raises an exception, or it blocks for ever on
  \<^verbatim>\<open>self.lock\<close>; each outcome carries the manager state it leaves behind (the
  fields of the manager can be read without the lock, as \<^verbatim>\<open>require_connection\<close>
  does). Every method body runs inside \<^verbatim>\<open>with self.lock\<close>, so invocations from
  different threads are serialised and a history of the manager is a list of calls.
  Values of \<^verbatim>\<open>time.time()\<close> and durations are modelled as exact reals (rounding of
  floating-point arithmetic is not modelled), and the values drawn from
  \<^verbatim>\<open>uuid.uuid4()\<close>, \<^verbatim>\<open>time.time()\<close> and flask's \<^verbatim>\<open>request\<close> are inputs of
  the call.
\<close>

subsection \<open>Data\<close>

text \<open>\<^verbatim>\<open>@dataclass class Connection\<close>, lines 16-26 (\<open>id\<close> and \<open>method\<close> are suffixed).\<close>

record Connection =
  id_c :: string
  client_ip :: string
  start_time :: real
  endpoint :: string
  method_c :: string
  user_agent :: string
  request_id :: string
  headers :: "(string \<times> string) list"
  rate_limit_remaining :: int

text \<open>The dictionary \<^verbatim>\<open>self.metrics\<close>, lines 37-44.\<close>

record Metrics =
  total_requests :: int
  active_connections :: int
  queued_connections :: int
  rejected_connections :: int
  avg_response_time :: real
  total_response_time :: real

text \<open>
  The argument that reaches the parameter \<^verbatim>\<open>timeout\<close> of \<^verbatim>\<open>start_connection\<close>:
  Python does not check the annotation \<^verbatim>\<open>int\<close>, and line 93 passes a string.
\<close>

datatype timeout_arg = TInt int | TStr string

datatype exn = QueueFull | QueueEmpty | ValueError | TypeError | ZeroDivisionError

text \<open>
  \<^verbatim>\<open>queue.Queue\<close> of the standard library: a capacity \<open>maxsize\<close> (no bound when it
  is not positive) and the items, oldest first.
\<close>

record Queue =
  maxsize :: int
  items :: "string list"

text \<open>
  What the call reads from its environment: the two values of \<^verbatim>\<open>str(uuid.uuid4())\<close>
  (lines 48 and 68), \<^verbatim>\<open>time.time()\<close> (line 64) and the fields of flask's
  \<^verbatim>\<open>request\<close> (lines 63-69), the two header look-ups given as their results.
\<close>

record env =
  uuid1 :: string
  uuid2 :: string
  now :: real
  remote_addr :: string
  path :: string
  req_method :: string
  header_user_agent :: "string option"
  header_x_request_id :: "string option"
  req_headers :: "(string \<times> string) list"

text \<open>
  The fields of \<^verbatim>\<open>ConnectionManager\<close>, lines 29-34. The dictionary
  \<^verbatim>\<open>connections\<close> is an association list in insertion order; \<open>lock_held\<close> is the
  state of the \<^verbatim>\<open>threading.Lock\<close>.
\<close>

record ConnectionManager =
  max_concurrent :: int
  connections :: "(string \<times> Connection) list"
  lock_held :: bool
  connection_queue :: Queue
  metrics :: Metrics

datatype 'a outcome =
    Returns 'a ConnectionManager
  | Raises exn ConnectionManager
  | Blocks ConnectionManager

fun state_after :: "'a outcome \<Rightarrow> ConnectionManager" where
  "state_after (Returns v st) = st"
| "state_after (Raises ex st) = st"
| "state_after (Blocks st) = st"

fun is_Raises :: "'a outcome \<Rightarrow> bool" where
  "is_Raises (Raises ex st) = True"
| "is_Raises (Returns v st) = False"
| "is_Raises (Blocks st) = False"

fun is_Blocks :: "'a outcome \<Rightarrow> bool" where
  "is_Blocks (Blocks st) = True"
| "is_Blocks (Returns v st) = False"
| "is_Blocks (Raises ex st) = False"

text \<open>The value a call hands back to its caller, if it returns.\<close>

fun return_value :: "'a outcome \<Rightarrow> 'a option" where
  "return_value (Returns v st) = Some v"
| "return_value (Raises ex st) = None"
| "return_value (Blocks st) = None"

subsection \<open>The queue\<close>

text \<open>\<^verbatim>\<open>queue.Queue()\<close>, line 33: the default \<open>maxsize\<close> is 0.\<close>

definition Queue_init :: Queue where
  "Queue_init = \<lparr>maxsize = 0, items = []\<rparr>"

text \<open>
  \<^verbatim>\<open>Queue.put(item, timeout=timeout)\<close> with \<^verbatim>\<open>block=True\<close>. Only a queue
  with a positive \<open>maxsize\<close> looks at the timeout: comparing a string with 0 is a
  \<^verbatim>\<open>TypeError\<close>, a negative number a \<^verbatim>\<open>ValueError\<close>, and a full queue raises
  \<^verbatim>\<open>Full\<close> once the timeout is over (the caller holds the manager's lock, so no
  other thread takes an item meanwhile). Otherwise the item is appended.
\<close>

definition put :: "Queue \<Rightarrow> string \<Rightarrow> timeout_arg \<Rightarrow> exn + Queue" where
  "put q item timeout =
     (if maxsize q > 0 then
        (case timeout of
           TStr s \<Rightarrow> Inl TypeError
         | TInt t \<Rightarrow>
             if t < 0 then Inl ValueError
             else if int (length (items q)) \<ge> maxsize q then Inl QueueFull
             else Inr (q\<lparr>items := items q @ [item]\<rparr>))
      else Inr (q\<lparr>items := items q @ [item]\<rparr>))"

text \<open>\<^verbatim>\<open>Queue.get_nowait()\<close>: the oldest item, or \<^verbatim>\<open>Empty\<close>.\<close>

definition get_nowait :: "Queue \<Rightarrow> exn + (string \<times> Queue)" where
  "get_nowait q =
     (case items q of
        [] \<Rightarrow> Inl QueueEmpty
      | x # xs \<Rightarrow> Inr (x, q\<lparr>items := xs\<rparr>))"

subsection \<open>The manager\<close>

text \<open>\<^verbatim>\<open>_initialize_metrics\<close>, lines 36-44.\<close>

definition initialize_metrics :: Metrics where
  "initialize_metrics =
     \<lparr>total_requests = 0, active_connections = 0, queued_connections = 0,
      rejected_connections = 0, avg_response_time = 0, total_response_time = 0\<rparr>"

text \<open>\<^verbatim>\<open>__init__\<close>, lines 29-34.\<close>

definition ConnectionManager_init :: "int \<Rightarrow> ConnectionManager" where
  "ConnectionManager_init mc =
     \<lparr>max_concurrent = mc, connections = [], lock_held = False,
      connection_queue = Queue_init, metrics = initialize_metrics\<rparr>"

text \<open>
  \<^verbatim>\<open>with self.lock: body\<close>. A \<^verbatim>\<open>threading.Lock\<close> is not reentrant: when it is
  held (by the calling thread itself, or by a thread that never releases it) the caller
  blocks. The lock is released when the body returns or raises.
\<close>

definition with_lock ::
  "(ConnectionManager \<Rightarrow> 'a outcome) \<Rightarrow> ConnectionManager \<Rightarrow> 'a outcome" where
  "with_lock body st =
     (if lock_held st then Blocks st
      else (case body (st\<lparr>lock_held := True\<rparr>) of
              Returns v st' \<Rightarrow> Returns v (st'\<lparr>lock_held := False\<rparr>)
            | Raises ex st' \<Rightarrow> Raises ex (st'\<lparr>lock_held := False\<rparr>)
            | Blocks st' \<Rightarrow> Blocks st'))"

text \<open>Lines 60-75 of \<^verbatim>\<open>start_connection\<close>: create the connection and return its id.\<close>

definition create_connection :: "ConnectionManager \<Rightarrow> string \<Rightarrow> env \<Rightarrow> string option outcome" where
  "create_connection st conn_id e =
     (let conn = \<lparr>id_c = conn_id,
                  client_ip = remote_addr e,
                  start_time = now e,
                  endpoint = path e,
                  method_c = req_method e,
                  user_agent = (case header_user_agent e of None \<Rightarrow> ''unknown'' | Some v \<Rightarrow> v),
                  request_id = (case header_x_request_id e of None \<Rightarrow> uuid2 e | Some v \<Rightarrow> v),
                  headers = req_headers e,
                  rate_limit_remaining = 100\<rparr>;
          st1 = st\<lparr>connections := AList.update conn_id conn (connections st)\<rparr>;
          st2 = st1\<lparr>metrics := (metrics st1)\<lparr>total_requests := total_requests (metrics st1) + 1\<rparr>\<rparr>;
          st3 = st2\<lparr>metrics := (metrics st2)\<lparr>active_connections := int (length (connections st2))\<rparr>\<rparr>
      in Returns (Some conn_id) st3)"

text \<open>The body of \<^verbatim>\<open>start_connection\<close> under the lock, lines 51-75.\<close>

definition start_connection_body :: "timeout_arg \<Rightarrow> env \<Rightarrow> ConnectionManager \<Rightarrow> string option outcome" where
  "start_connection_body timeout e st =
     (let conn_id = uuid1 e in
      if int (length (connections st)) \<ge> max_concurrent st then
        (case put (connection_queue st) conn_id timeout of
           Inr q \<Rightarrow>
             create_connection
               (st\<lparr>connection_queue := q,
                   metrics := (metrics st)\<lparr>queued_connections := queued_connections (metrics st) + 1\<rparr>\<rparr>)
               conn_id e
         | Inl QueueFull \<Rightarrow>
             Returns None
               (st\<lparr>metrics := (metrics st)\<lparr>rejected_connections := rejected_connections (metrics st) + 1\<rparr>\<rparr>)
         | Inl ex \<Rightarrow> Raises ex st)
      else create_connection st conn_id e)"

text \<open>\<^verbatim>\<open>start_connection(timeout)\<close>, lines 46-75.\<close>

definition start_connection :: "ConnectionManager \<Rightarrow> timeout_arg \<Rightarrow> env \<Rightarrow> string option outcome" where
  "start_connection st timeout e = with_lock (start_connection_body timeout e) st"

text \<open>
  The \<^verbatim>\<open>try\<close> block of \<^verbatim>\<open>end_connection\<close>, lines 90-93: take the oldest queued
  id, decrement the counter and call \<^verbatim>\<open>self.start_connection(queued_conn_id)\<close>,
  whose value is dropped. The environment \<open>e\<close> is the one of that inner call.
\<close>

definition process_queued :: "ConnectionManager \<Rightarrow> env \<Rightarrow> unit outcome" where
  "process_queued st e =
     (case get_nowait (connection_queue st) of
        Inl ex \<Rightarrow> Raises ex st
      | Inr (queued_conn_id, q) \<Rightarrow>
          (let st1 = st\<lparr>connection_queue := q\<rparr>;
               st2 = st1\<lparr>metrics := (metrics st1)\<lparr>queued_connections := queued_connections (metrics st1) - 1\<rparr>\<rparr>
           in case start_connection st2 (TStr queued_conn_id) e of
                Returns v st3 \<Rightarrow> Returns () st3
              | Raises ex st3 \<Rightarrow> Raises ex st3
              | Blocks st3 \<Rightarrow> Blocks st3))"

text \<open>
  The body of \<^verbatim>\<open>end_connection\<close> under the lock, lines 80-97; \<open>t\<close> is the value of
  \<^verbatim>\<open>time.time()\<close> on line 82. The division on line 85 raises
  \<^verbatim>\<open>ZeroDivisionError\<close> when \<open>total_requests\<close> is 0. \<^verbatim>\<open>except queue.Empty: pass\<close>
  catches that exception only.
\<close>

definition end_connection_body :: "string \<Rightarrow> real \<Rightarrow> env \<Rightarrow> ConnectionManager \<Rightarrow> unit outcome" where
  "end_connection_body conn_id t e st =
     (case map_of (connections st) conn_id of
        None \<Rightarrow> Returns () st
      | Some conn \<Rightarrow>
          (let duration = t - start_time conn;
               st1 = st\<lparr>metrics := (metrics st)\<lparr>total_response_time := total_response_time (metrics st) + duration\<rparr>\<rparr>
           in if total_requests (metrics st1) = 0 then Raises ZeroDivisionError st1
              else
                (let st2 = st1\<lparr>metrics := (metrics st1)\<lparr>avg_response_time :=
                              total_response_time (metrics st1) / of_int (total_requests (metrics st1))\<rparr>\<rparr>;
                     st3 = st2\<lparr>connections := AList.delete conn_id (connections st2)\<rparr>;
                     finish = (\<lambda>s. Returns () (s\<lparr>metrics := (metrics s)\<lparr>active_connections := int (length (connections s))\<rparr>\<rparr>))
                 in case process_queued st3 e of
                      Returns v st4 \<Rightarrow> finish st4
                    | Raises ex st4 \<Rightarrow> (if ex = QueueEmpty then finish st4 else Raises ex st4)
                    | Blocks st4 \<Rightarrow> Blocks st4)))"

text \<open>\<^verbatim>\<open>end_connection(conn_id)\<close>, lines 77-97.\<close>

definition end_connection :: "ConnectionManager \<Rightarrow> string \<Rightarrow> real \<Rightarrow> env \<Rightarrow> unit outcome" where
  "end_connection st conn_id t e = with_lock (end_connection_body conn_id t e) st"

text \<open>\<^verbatim>\<open>get_metrics\<close>, lines 103-106: a copy of the metrics, taken under the lock.\<close>

definition get_metrics :: "ConnectionManager \<Rightarrow> Metrics outcome" where
  "get_metrics st = with_lock (\<lambda>s. Returns (metrics s) s) st"

subsection \<open>Histories\<close>

text \<open>
  A call of one of the two mutating methods with its inputs, the state a call leaves
  behind (whether it returned, raised or blocked), and the state after a list of calls.
\<close>

datatype call = StartConnection timeout_arg env | EndConnection string real env

fun step :: "ConnectionManager \<Rightarrow> call \<Rightarrow> ConnectionManager" where
  "step st (StartConnection timeout e) = state_after (start_connection st timeout e)"
| "step st (EndConnection conn_id t e) = state_after (end_connection st conn_id t e)"

definition run :: "ConnectionManager \<Rightarrow> call list \<Rightarrow> ConnectionManager" where
  "run st calls = foldl step st calls"

text \<open>
  The ids a call appends to the wait queue and the ids it takes from its front, read off
  the queue before and after the call (lemma \<open>step_queue\<close> below shows that a call
  leaves the queue alone, appends one id at the back, or removes the front id), and the
  two logs of a history: every id in the order it was queued, and every id in the order
  \<^verbatim>\<open>end_connection\<close> took it for promotion.
\<close>

definition enqueued_by :: "ConnectionManager \<Rightarrow> call \<Rightarrow> string list" where
  "enqueued_by st c =
     (let q = items (connection_queue st); q' = items (connection_queue (step st c))
      in if length q < length q' then drop (length q) q' else [])"

definition dequeued_by :: "ConnectionManager \<Rightarrow> call \<Rightarrow> string list" where
  "dequeued_by st c =
     (let q = items (connection_queue st); q' = items (connection_queue (step st c))
      in if length q' < length q then take (length q - length q') q else [])"

fun enqueue_log :: "ConnectionManager \<Rightarrow> call list \<Rightarrow> string list" where
  "enqueue_log st [] = []"
| "enqueue_log st (c # cs) = enqueued_by st c @ enqueue_log (step st c) cs"

fun promotion_log :: "ConnectionManager \<Rightarrow> call list \<Rightarrow> string list" where
  "promotion_log st [] = []"
| "promotion_log st (c # cs) = dequeued_by st c @ promotion_log (step st c) cs"

text \<open>
  The deadline of a waiter in the words of the specification (the wait of a caller is
  bounded by the timeout passed to acquire): the time of the call plus its timeout. The
  source computes no such value.
\<close>

definition spec_deadline :: "timeout_arg \<Rightarrow> env \<Rightarrow> real option" where
  "spec_deadline timeout e =
     (case timeout of TInt n \<Rightarrow> Some (now e + of_int n) | TStr s \<Rightarrow> None)"

subsection \<open>Example histories\<close>

text \<open>An environment for examples: a request from 10.0.0.1 at time \<open>t\<close> with id \<open>u\<close>.\<close>

definition env_at :: "string \<Rightarrow> real \<Rightarrow> env" where
  "env_at u t =
     \<lparr>uuid1 = u, uuid2 = u @ ''-req'', now = t, remote_addr = ''10.0.0.1'',
      path = ''/proxy/x'', req_method = ''GET'', header_user_agent = None,
      header_x_request_id = None, req_headers = []\<rparr>"

text \<open>One slot, taken by request A.\<close>

definition one_slot_taken :: ConnectionManager where
  "one_slot_taken = run (ConnectionManager_init 1) [StartConnection (TInt 30) (env_at ''A'' 0)]"

text \<open>One slot, request A admitted, then request B arrives while the registry is full.\<close>

definition one_slot_two_started :: ConnectionManager where
  "one_slot_two_started =
     run (ConnectionManager_init 1)
       [StartConnection (TInt 30) (env_at ''A'' 0), StartConnection (TInt 30) (env_at ''B'' 1)]"

text \<open>The same history followed by the release of A at time 5.\<close>

definition one_slot_after_release :: ConnectionManager where
  "one_slot_after_release =
     run (ConnectionManager_init 1)
       [StartConnection (TInt 30) (env_at ''A'' 0), StartConnection (TInt 30) (env_at ''B'' 1),
        EndConnection ''A'' 5 (env_at ''C'' 5)]"

text \<open>One slot and three requests: A is admitted, B and C arrive while the registry is full.\<close>

definition one_slot_three_started :: ConnectionManager where
  "one_slot_three_started =
     run (ConnectionManager_init 1)
       [StartConnection (TInt 30) (env_at ''A'' 0), StartConnection (TInt 30) (env_at ''B'' 1),
        StartConnection (TInt 30) (env_at ''C'' 2)]"


text \<open>One slot, A admitted at 0, then B arrives at time 1 with a timeout of 0.\<close>

definition one_slot_zero_timeout :: ConnectionManager where
  "one_slot_zero_timeout =
     run (ConnectionManager_init 1)
       [StartConnection (TInt 30) (env_at ''A'' 0), StartConnection (TInt 0) (env_at ''B'' 1)]"

text \<open>A is admitted at 0 and released at 1, then B is admitted (capacity 100).\<close>

definition released_then_started :: ConnectionManager where
  "released_then_started =
     run (ConnectionManager_init 100)
       [StartConnection (TInt 30) (env_at ''A'' 0), EndConnection ''A'' 1 (env_at ''C'' 1),
        StartConnection (TInt 30) (env_at ''B'' 2)]"

text \<open>A and B are admitted at 10 and A is released at 11, a duration of 1 (capacity 100).\<close>

definition two_started_one_released :: ConnectionManager where
  "two_started_one_released =
     run (ConnectionManager_init 100)
       [StartConnection (TInt 30) (env_at ''A'' 10), StartConnection (TInt 30) (env_at ''B'' 10),
        EndConnection ''A'' 11 (env_at ''C'' 11)]"

section \<open>Basic facts\<close>

lemmas history_defs = run_def ConnectionManager_init_def Queue_init_def initialize_metrics_def
  env_at_def

lemmas eval_defs = start_connection_def with_lock_def start_connection_body_def
  create_connection_def put_def end_connection_def end_connection_body_def process_queued_def
  get_nowait_def Let_def

lemma run_invariant:
  assumes "P st" and "\<And>s c. P s \<Longrightarrow> P (step s c)"
  shows "P (run st calls)"
  using assms(1) unfolding run_def
  by (induction calls arbitrary: st) (simp_all add: assms(2))

lemma start_connection_blocked: "lock_held st \<Longrightarrow> start_connection st timeout e = Blocks st"
  by (simp add: start_connection_def with_lock_def)

lemma end_connection_blocked: "lock_held st \<Longrightarrow> end_connection st c t e = Blocks st"
  by (simp add: end_connection_def with_lock_def)

text \<open>
  Inside \<^verbatim>\<open>end_connection\<close> the lock is held, so the inner call of
  \<^verbatim>\<open>start_connection\<close> never gets past \<^verbatim>\<open>with self.lock\<close>.
\<close>

lemma process_queued_locked:
  "lock_held st \<Longrightarrow> process_queued st e =
     (case items (connection_queue st) of
        [] \<Rightarrow> Raises QueueEmpty st
      | w # ws \<Rightarrow> Blocks (st\<lparr>connection_queue := (connection_queue st)\<lparr>items := ws\<rparr>,
                   metrics := (metrics st)\<lparr>queued_connections := queued_connections (metrics st) - 1\<rparr>\<rparr>))"
  by (simp add: process_queued_def get_nowait_def start_connection_blocked Let_def split: list.splits)

lemma put_unbounded: "maxsize q \<le> 0 \<Longrightarrow> put q x timeout = Inr (q\<lparr>items := items q @ [x]\<rparr>)"
  by (simp add: put_def)

lemma put_Inr: "put q x timeout = Inr q' \<Longrightarrow> q' = q\<lparr>items := items q @ [x]\<rparr>"
  by (auto simp: put_def split: if_splits timeout_arg.splits)

lemmas start_defs = start_connection_def with_lock_def start_connection_body_def
  create_connection_def Let_def

lemmas end_defs = end_connection_def with_lock_def end_connection_body_def
  process_queued_locked Let_def

text \<open>
  Invariants of every history that starts from a fresh manager: the queue keeps its
  \<open>maxsize\<close> of 0, nothing is ever rejected, \<open>total_requests\<close> is at least the
  number of registered connections, and the average is 0 as long as \<open>total_requests\<close> is.
\<close>

lemma step_maxsize: "maxsize (connection_queue (step st c)) = maxsize (connection_queue st)"
proof (cases c)
  case (StartConnection timeout e)
  then show ?thesis
    by (cases "put (connection_queue st) (uuid1 e) timeout")
       (auto simp: start_defs dest: put_Inr split: exn.splits)
next
  case (EndConnection conn_id t e)
  then show ?thesis
    by (auto simp: end_defs split: option.splits list.splits)
qed

lemma step_rejected:
  assumes "maxsize (connection_queue st) = 0"
  shows "rejected_connections (metrics (step st c)) = rejected_connections (metrics st)"
proof (cases c)
  case (StartConnection timeout e)
  then show ?thesis
    using assms by (auto simp: start_defs put_unbounded)
next
  case (EndConnection conn_id t e)
  then show ?thesis
    by (auto simp: end_defs split: option.splits list.splits)
qed

lemma length_update_le: "length (AList.update k v al) \<le> Suc (length al)"
  by (induction al) auto

lemma step_length_total:
  assumes "int (length (connections st)) \<le> total_requests (metrics st)"
  shows "int (length (connections (step st c))) \<le> total_requests (metrics (step st c))"
proof (cases c)
  case (StartConnection timeout e)
  have "int (length (AList.update k v (connections st))) \<le> int (length (connections st)) + 1" for k v
    using length_update_le [of k v "connections st"] by simp
  then have "int (length (AList.update k v (connections st))) \<le> total_requests (metrics st) + 1" for k v
    using assms by (meson add_mono_thms_linordered_semiring(3) order_trans)
  then show ?thesis
    using StartConnection assms
    by (cases "put (connection_queue st) (uuid1 e) timeout")
       (auto simp: start_defs split: exn.splits)
next
  case (EndConnection conn_id t e)
  have "int (length (AList.delete conn_id (connections st))) \<le> int (length (connections st))"
    using length_delete_le [of conn_id "connections st"] by simp
  then have "int (length (AList.delete conn_id (connections st))) \<le> total_requests (metrics st)"
    using assms by simp
  then show ?thesis
    using EndConnection assms
    by (auto simp: end_defs split: option.splits list.splits)
qed

lemma step_avg_zero:
  assumes "int (length (connections st)) \<le> total_requests (metrics st)"
    and "total_requests (metrics st) = 0 \<longrightarrow> avg_response_time (metrics st) = 0"
  shows "total_requests (metrics (step st c)) = 0 \<longrightarrow> avg_response_time (metrics (step st c)) = 0"
proof (cases c)
  case (StartConnection timeout e)
  have "0 \<le> total_requests (metrics st)" using assms(1) by simp
  then show ?thesis
    using StartConnection assms(2)
    by (cases "put (connection_queue st) (uuid1 e) timeout")
       (auto simp: start_defs split: exn.splits)
next
  case (EndConnection conn_id t e)
  then show ?thesis
    using assms(2)
    by (auto simp: end_defs split: option.splits list.splits)
qed

lemma run_unbounded_no_rejection:
  "maxsize (connection_queue (run (ConnectionManager_init mc) calls)) = 0
   \<and> rejected_connections (metrics (run (ConnectionManager_init mc) calls)) = 0"
  by (rule run_invariant)
     (simp_all add: ConnectionManager_init_def Queue_init_def initialize_metrics_def
        step_maxsize step_rejected)

lemma run_length_total_avg:
  "int (length (connections (run (ConnectionManager_init mc) calls)))
     \<le> total_requests (metrics (run (ConnectionManager_init mc) calls))
   \<and> (total_requests (metrics (run (ConnectionManager_init mc) calls)) = 0
        \<longrightarrow> avg_response_time (metrics (run (ConnectionManager_init mc) calls)) = 0)"
  by (rule run_invariant)
     (simp_all add: ConnectionManager_init_def Queue_init_def initialize_metrics_def
        step_length_total step_avg_zero)

lemma registered_total_requests:
  assumes "map_of (connections (run (ConnectionManager_init mc) calls)) c = Some conn"
  shows "total_requests (metrics (run (ConnectionManager_init mc) calls)) \<noteq> 0"
proof -
  have "connections (run (ConnectionManager_init mc) calls) \<noteq> []"
    using assms by auto
  then have "0 < int (length (connections (run (ConnectionManager_init mc) calls)))"
    by simp
  then show ?thesis
    using run_length_total_avg [of mc calls] by linarith
qed

lemma unlock_free: "\<not> lock_held st \<Longrightarrow> st\<lparr>lock_held := False\<rparr> = st"
  by (cases st) simp

lemma end_connection_absent:
  assumes "map_of (connections st) c = None"
  shows "end_connection st c t e = (if lock_held st then Blocks st else Returns () st)"
  using assms by (simp add: end_defs unlock_free)

lemma end_connection_registered:
  assumes "\<not> lock_held st" and "map_of (connections st) c = Some conn"
    and "total_requests (metrics st) \<noteq> 0"
  shows "connections (state_after (end_connection st c t e)) = AList.delete c (connections st)"
    and "total_requests (metrics (state_after (end_connection st c t e))) = total_requests (metrics st)"
    and "total_response_time (metrics (state_after (end_connection st c t e)))
           = total_response_time (metrics st) + (t - start_time conn)"
    and "avg_response_time (metrics (state_after (end_connection st c t e)))
           = (total_response_time (metrics st) + (t - start_time conn)) / of_int (total_requests (metrics st))"
    and "\<not> is_Raises (end_connection st c t e)"
    and "is_Blocks (end_connection st c t e) \<longleftrightarrow> items (connection_queue st) \<noteq> []"
  using assms by (auto simp: end_defs split: list.splits)


section \<open>Capacity\<close>

text \<open>
  Claim C1 (the number of admitted connections, and \<open>active_connections\<close>, never exceed
  \<open>max_concurrent\<close>). The code at a history that breaks the bound: with one slot, the
  second \<^verbatim>\<open>start_connection\<close> finds the registry full, puts its id on the queue
  and then goes on to line 61 and registers the connection all the same, so that two
  connections are registered and \<open>active_connections\<close> is 2.
\<close>

theorem start_connection_exceeds_max_concurrent:
  "max_concurrent one_slot_two_started = 1
   \<and> map fst (connections one_slot_two_started) = [''A'', ''B'']
   \<and> active_connections (metrics one_slot_two_started) = 2"
  by (simp add: one_slot_two_started_def history_defs eval_defs)

text \<open>
  Claim C5 (no id is in the registry and in the wait queue at once). After the same
  history the id of the second request is the only item of the queue and a key of the
  registry.
\<close>

theorem queued_id_also_registered:
  "items (connection_queue one_slot_two_started) = [''B'']
   \<and> map_of (connections one_slot_two_started) ''B'' \<noteq> None
   \<and> ''B'' \<in> set (items (connection_queue one_slot_two_started))"
  by (simp add: one_slot_two_started_def history_defs eval_defs)

text \<open>
  Claim C4 (a full registry and timeout 0: rejected at once, \<open>rejected_connections\<close> one
  more, \<open>queued_connections\<close> still 0, nothing registered). The code with one slot
  taken: \<^verbatim>\<open>start_connection(0)\<close> returns the new id, counts it as queued, registers
  it, and rejects nothing.
\<close>

theorem zero_timeout_admitted_when_full:
  "int (length (connections one_slot_taken)) = max_concurrent one_slot_taken
   \<and> queued_connections (metrics one_slot_taken) = 0
   \<and> return_value (start_connection one_slot_taken (TInt 0) (env_at ''B'' 1)) = Some (Some ''B'')
   \<and> rejected_connections (metrics (state_after (start_connection one_slot_taken (TInt 0) (env_at ''B'' 1)))) = 0
   \<and> queued_connections (metrics (state_after (start_connection one_slot_taken (TInt 0) (env_at ''B'' 1)))) = 1
   \<and> map fst (connections (state_after (start_connection one_slot_taken (TInt 0) (env_at ''B'' 1)))) = [''A'', ''B'']"
  by (simp add: one_slot_taken_def history_defs eval_defs)

section \<open>Release with a queued id\<close>

text \<open>
  Claim C3 (\<^verbatim>\<open>end_connection\<close> never suspends its caller, also when the wait
  queue is not empty). The code with the lock free, A registered and B queued: the
  release of A blocks for ever, and it leaves the lock held.
\<close>

theorem end_connection_blocks_with_waiter:
  "\<not> lock_held one_slot_two_started
   \<and> items (connection_queue one_slot_two_started) \<noteq> []
   \<and> is_Blocks (end_connection one_slot_two_started ''A'' 5 (env_at ''C'' 5))
   \<and> lock_held (state_after (end_connection one_slot_two_started ''A'' 5 (env_at ''C'' 5)))"
  by (simp add: one_slot_two_started_def history_defs eval_defs)

text \<open>
  Claim C2 (a release hands the freed slot to the oldest waiter directly, without going
  through \<^verbatim>\<open>start_connection\<close> again and without passing the waiter's id as a
  timeout). The code in the same state: the \<^verbatim>\<open>try\<close> block of the release of A
  takes B from the queue and ends in the call of \<^verbatim>\<open>start_connection\<close> with the
  string B as its timeout, which blocks on the lock; that inner call would register a
  connection under the new id C, not under B, and C is never registered.
\<close>

theorem promotion_reenters_start_connection:
  "end_connection one_slot_two_started ''A'' 5 (env_at ''C'' 5) = Blocks one_slot_after_release
   \<and> process_queued
        (one_slot_two_started
           \<lparr>lock_held := True,
            connections := AList.delete ''A'' (connections one_slot_two_started),
            metrics := (metrics one_slot_two_started)\<lparr>total_response_time := 5, avg_response_time := 5 / 2\<rparr>\<rparr>)
        (env_at ''C'' 5)
      = Blocks one_slot_after_release
   \<and> start_connection one_slot_after_release (TStr ''B'') (env_at ''C'' 5) = Blocks one_slot_after_release
   \<and> map_of (connections one_slot_after_release) ''C'' = None"
  by (simp add: one_slot_two_started_def one_slot_after_release_def history_defs eval_defs)

section \<open>Release\<close>

lemma map_of_delete_same: "map_of (AList.delete c al) c = None"
  by (simp add: delete_conv')

text \<open>
  What a release does while no earlier release has blocked. In every state of a history
  from a fresh manager: releasing an id that is not registered changes nothing and raises
  nothing (and returns at once when the lock is free); a release of a registered id that
  enters the critical section removes that connection and no other, adds the duration to
  \<open>total_response_time\<close> and recomputes \<open>avg_response_time\<close>, raises nothing, and a
  second release of the same id changes nothing and raises nothing.
\<close>

theorem release_idempotent:
  assumes "st = run (ConnectionManager_init mc) calls"
  shows "(map_of (connections st) c = None \<longrightarrow>
            state_after (end_connection st c t e) = st
          \<and> \<not> is_Raises (end_connection st c t e)
          \<and> (\<not> lock_held st \<longrightarrow> end_connection st c t e = Returns () st))
       \<and> (\<not> lock_held st \<and> map_of (connections st) c = Some conn \<longrightarrow>
            connections (state_after (end_connection st c t e)) = AList.delete c (connections st)
          \<and> map_of (connections (state_after (end_connection st c t e))) c = None
          \<and> total_response_time (metrics (state_after (end_connection st c t e)))
              = total_response_time (metrics st) + (t - start_time conn)
          \<and> avg_response_time (metrics (state_after (end_connection st c t e)))
              = (total_response_time (metrics st) + (t - start_time conn))
                  / of_int (total_requests (metrics st))
          \<and> \<not> is_Raises (end_connection st c t e)
          \<and> state_after (end_connection (state_after (end_connection st c t e)) c t' e')
              = state_after (end_connection st c t e)
          \<and> \<not> is_Raises (end_connection (state_after (end_connection st c t e)) c t' e'))"
proof (intro conjI impI)
  assume absent: "map_of (connections st) c = None"
  show "state_after (end_connection st c t e) = st"
    by (simp add: end_connection_absent [OF absent])
  show "\<not> is_Raises (end_connection st c t e)"
    by (simp add: end_connection_absent [OF absent])
  show "end_connection st c t e = Returns () st" if "\<not> lock_held st"
    using that by (simp add: end_connection_absent [OF absent])
next
  assume reg: "\<not> lock_held st \<and> map_of (connections st) c = Some conn"
  then have free: "\<not> lock_held st" and conn: "map_of (connections st) c = Some conn"
    by simp_all
  have total: "total_requests (metrics st) \<noteq> 0"
    using registered_total_requests conn assms by blast
  note first = end_connection_registered [OF free conn total, of t e]
  show "connections (state_after (end_connection st c t e)) = AList.delete c (connections st)"
    by (rule first(1))
  then show gone: "map_of (connections (state_after (end_connection st c t e))) c = None"
    by (simp add: map_of_delete_same)
  show "total_response_time (metrics (state_after (end_connection st c t e)))
          = total_response_time (metrics st) + (t - start_time conn)"
    by (rule first(3))
  show "avg_response_time (metrics (state_after (end_connection st c t e)))
          = (total_response_time (metrics st) + (t - start_time conn))
              / of_int (total_requests (metrics st))"
    by (rule first(4))
  show "\<not> is_Raises (end_connection st c t e)"
    by (rule first(5))
  show "state_after (end_connection (state_after (end_connection st c t e)) c t' e')
          = state_after (end_connection st c t e)"
    by (simp add: end_connection_absent [OF gone])
  show "\<not> is_Raises (end_connection (state_after (end_connection st c t e)) c t' e')"
    by (simp add: end_connection_absent [OF gone])
qed

text \<open>The theorem at the release of A from a manager with one slot, and a second release.\<close>

theorem release_idempotent_witness:
  "\<not> lock_held one_slot_taken
   \<and> map fst (connections one_slot_taken) = [''A'']
   \<and> connections (state_after (end_connection one_slot_taken ''A'' 4 (env_at ''C'' 4))) = []
   \<and> total_response_time (metrics (state_after (end_connection one_slot_taken ''A'' 4 (env_at ''C'' 4)))) = 4
   \<and> avg_response_time (metrics (state_after (end_connection one_slot_taken ''A'' 4 (env_at ''C'' 4)))) = 4
   \<and> state_after (end_connection (state_after (end_connection one_slot_taken ''A'' 4 (env_at ''C'' 4)))
        ''A'' 9 (env_at ''D'' 9))
      = state_after (end_connection one_slot_taken ''A'' 4 (env_at ''C'' 4))"
  using release_idempotent [of one_slot_taken 1 "[StartConnection (TInt 30) (env_at ''A'' 0)]" "''A''"
      4 "env_at ''C'' 4" "the (map_of (connections one_slot_taken) ''A'')" 9 "env_at ''D'' 9"]
  by (simp add: one_slot_taken_def history_defs start_defs put_def)

text \<open>
  Claim C6 (release is idempotent: the first release of an admitted id removes its
  connection and updates the metrics, the release of an unregistered id is a no-op). The
  code after A and B have been started with one slot and A has been released: that
  release blocked inside \<^verbatim>\<open>end_connection\<close> before line 97, so
  \<open>active_connections\<close> still says 2 while B alone is registered, and it holds the lock
  for ever. The first release of the admitted B then blocks at \<^verbatim>\<open>with self.lock\<close>:
  B stays registered and no metric is updated; so does every other release, also of an
  id that was never registered, which never returns to its caller.
\<close>

theorem release_blocked_by_earlier_release:
  "one_slot_after_release = state_after (end_connection one_slot_two_started ''A'' 5 (env_at ''C'' 5))
   \<and> map fst (connections one_slot_after_release) = [''B'']
   \<and> active_connections (metrics one_slot_after_release) = 2
   \<and> end_connection one_slot_after_release ''B'' 7 (env_at ''D'' 7) = Blocks one_slot_after_release
   \<and> map_of (connections (state_after (end_connection one_slot_after_release ''B'' 7 (env_at ''D'' 7)))) ''B''
       \<noteq> None
   \<and> total_response_time (metrics (state_after (end_connection one_slot_after_release ''B'' 7 (env_at ''D'' 7))))
       = total_response_time (metrics one_slot_after_release)
   \<and> map_of (connections one_slot_after_release) ''Z'' = None
   \<and> return_value (end_connection one_slot_after_release ''Z'' 8 (env_at ''D'' 8)) = None
   \<and> is_Blocks (end_connection one_slot_after_release ''Z'' 8 (env_at ''D'' 8))
   \<and> end_connection one_slot_after_release c t e = Blocks one_slot_after_release"
proof -
  have held: "lock_held one_slot_after_release"
    by (simp add: one_slot_after_release_def history_defs eval_defs)
  have every: "end_connection one_slot_after_release c t e = Blocks one_slot_after_release"
    by (rule end_connection_blocked [OF held])
  have "one_slot_after_release = state_after (end_connection one_slot_two_started ''A'' 5 (env_at ''C'' 5))
   \<and> map fst (connections one_slot_after_release) = [''B'']
   \<and> active_connections (metrics one_slot_after_release) = 2
   \<and> end_connection one_slot_after_release ''B'' 7 (env_at ''D'' 7) = Blocks one_slot_after_release
   \<and> map_of (connections (state_after (end_connection one_slot_after_release ''B'' 7 (env_at ''D'' 7)))) ''B''
       \<noteq> None
   \<and> total_response_time (metrics (state_after (end_connection one_slot_after_release ''B'' 7 (env_at ''D'' 7))))
       = total_response_time (metrics one_slot_after_release)
   \<and> map_of (connections one_slot_after_release) ''Z'' = None
   \<and> return_value (end_connection one_slot_after_release ''Z'' 8 (env_at ''D'' 8)) = None
   \<and> is_Blocks (end_connection one_slot_after_release ''Z'' 8 (env_at ''D'' 8))"
    by (simp add: one_slot_two_started_def one_slot_after_release_def history_defs eval_defs)
  with every show ?thesis
    by blast
qed

section \<open>The average response time\<close>

lemma start_connection_avg:
  "avg_response_time (metrics (state_after (start_connection st timeout e))) = avg_response_time (metrics st)"
  by (cases "put (connection_queue st) (uuid1 e) timeout")
     (auto simp: start_defs split: exn.splits)

text \<open>
  Claim C8 as it is stated (the average equals \<open>total_response_time / total_requests\<close>)
  fails for the metrics a caller reads: after A has been admitted and released with a
  duration of 1 and B has been admitted, \<^verbatim>\<open>get_metrics\<close> returns
  \<open>total_requests = 2\<close>, \<open>total_response_time = 1\<close> and \<open>avg_response_time = 1\<close>,
  not 1/2: only \<^verbatim>\<open>end_connection\<close> recomputes the average.
\<close>

theorem avg_response_time_stale:
  "return_value (get_metrics released_then_started) = Some (metrics released_then_started)
   \<and> total_requests (metrics released_then_started) = 2
   \<and> total_response_time (metrics released_then_started) = 1
   \<and> avg_response_time (metrics released_then_started) = 1
   \<and> avg_response_time (metrics released_then_started)
       \<noteq> total_response_time (metrics released_then_started)
           / of_int (total_requests (metrics released_then_started))"
  by (simp add: released_then_started_def history_defs eval_defs get_metrics_def)

text \<open>
  Claim C8, amended. In every state of a history from a fresh manager the average is 0
  while \<open>total_requests\<close> is 0; a release of a registered connection that enters the
  critical section adds the duration to \<open>total_response_time\<close> and sets the average
  to the new \<open>total_response_time\<close> divided by \<open>total_requests\<close> (which is not 0);
  the release of an unregistered id and every \<^verbatim>\<open>start_connection\<close> leave the
  average as it is.
\<close>

theorem avg_response_time_set_by_release:
  assumes "st = run (ConnectionManager_init mc) calls"
  shows "(total_requests (metrics st) = 0 \<longrightarrow> avg_response_time (metrics st) = 0)
       \<and> (\<not> lock_held st \<and> map_of (connections st) c = Some conn \<longrightarrow>
            total_requests (metrics (state_after (end_connection st c t e))) \<noteq> 0
          \<and> total_response_time (metrics (state_after (end_connection st c t e)))
              = total_response_time (metrics st) + (t - start_time conn)
          \<and> avg_response_time (metrics (state_after (end_connection st c t e)))
              = total_response_time (metrics (state_after (end_connection st c t e)))
                  / of_int (total_requests (metrics (state_after (end_connection st c t e)))))
       \<and> (map_of (connections st) c = None \<longrightarrow>
            avg_response_time (metrics (state_after (end_connection st c t e)))
              = avg_response_time (metrics st))
       \<and> avg_response_time (metrics (state_after (start_connection st timeout e')))
           = avg_response_time (metrics st)"
proof (intro conjI impI)
  show "avg_response_time (metrics st) = 0" if "total_requests (metrics st) = 0"
    using that run_length_total_avg [of mc calls] assms by simp
next
  assume reg: "\<not> lock_held st \<and> map_of (connections st) c = Some conn"
  then have free: "\<not> lock_held st" and conn: "map_of (connections st) c = Some conn"
    by simp_all
  have total: "total_requests (metrics st) \<noteq> 0"
    using registered_total_requests conn assms by blast
  note rel = end_connection_registered [OF free conn total, of t e]
  show "total_requests (metrics (state_after (end_connection st c t e))) \<noteq> 0"
    using rel(2) total by simp
  show "total_response_time (metrics (state_after (end_connection st c t e)))
          = total_response_time (metrics st) + (t - start_time conn)"
    by (rule rel(3))
  show "avg_response_time (metrics (state_after (end_connection st c t e)))
          = total_response_time (metrics (state_after (end_connection st c t e)))
              / of_int (total_requests (metrics (state_after (end_connection st c t e))))"
    by (simp only: rel(2) rel(3) rel(4))
next
  assume absent: "map_of (connections st) c = None"
  show "avg_response_time (metrics (state_after (end_connection st c t e)))
          = avg_response_time (metrics st)"
    by (simp add: end_connection_absent [OF absent])
next
  show "avg_response_time (metrics (state_after (start_connection st timeout e')))
          = avg_response_time (metrics st)"
    by (rule start_connection_avg)
qed

text \<open>
  The theorem at the second of two releases: A and B are admitted at time 10, A is
  released at 11 (duration 1) and B at 13 (duration 3); the average is then 2.
\<close>

theorem avg_response_time_set_by_release_witness:
  "\<not> lock_held two_started_one_released
   \<and> map fst (connections two_started_one_released) = [''B'']
   \<and> total_requests (metrics two_started_one_released) = 2
   \<and> total_response_time (metrics two_started_one_released) = 1
   \<and> start_time (the (map_of (connections two_started_one_released) ''B'')) = 10
   \<and> total_response_time (metrics (state_after (end_connection two_started_one_released ''B'' 13 (env_at ''C'' 13)))) = 4
   \<and> avg_response_time (metrics (state_after (end_connection two_started_one_released ''B'' 13 (env_at ''C'' 13)))) = 2"
  using avg_response_time_set_by_release [of two_started_one_released 100
      "[StartConnection (TInt 30) (env_at ''A'' 10), StartConnection (TInt 30) (env_at ''B'' 10),
        EndConnection ''A'' 11 (env_at ''C'' 11)]"
      "''B''" "the (map_of (connections two_started_one_released) ''B'')" 13 "env_at ''C'' 13"]
  by (simp add: two_started_one_released_def history_defs eval_defs)

section \<open>The order of promotion\<close>

lemma start_connection_queue:
  "items (connection_queue (step st (StartConnection timeout e))) = items (connection_queue st)
   \<or> items (connection_queue (step st (StartConnection timeout e))) = items (connection_queue st) @ [uuid1 e]"
  by (cases "put (connection_queue st) (uuid1 e) timeout")
     (auto simp: start_defs dest: put_Inr split: exn.splits)

lemma end_connection_queue:
  "items (connection_queue (step st (EndConnection c t e))) =
     (if \<not> lock_held st \<and> map_of (connections st) c \<noteq> None \<and> total_requests (metrics st) \<noteq> 0
      then tl (items (connection_queue st)) else items (connection_queue st))"
  by (auto simp: end_defs split: option.splits list.splits)

lemma step_queue:
  "items (connection_queue (step st c)) = items (connection_queue st)
   \<or> (\<exists>x. items (connection_queue (step st c)) = items (connection_queue st) @ [x])
   \<or> (\<exists>w. items (connection_queue st) = w # items (connection_queue (step st c)))"
proof (cases c)
  case (StartConnection timeout e)
  then show ?thesis using start_connection_queue [of st timeout e] by blast
next
  case (EndConnection conn_id t e)
  show ?thesis
    unfolding EndConnection end_connection_queue
    by (cases "items (connection_queue st)") simp_all
qed

lemma queue_change_logs:
  fixes q q' :: "'a list"
  assumes "q' = q \<or> (\<exists>x. q' = q @ [x]) \<or> (\<exists>w. q = w # q')"
  shows "q @ (if length q < length q' then drop (length q) q' else [])
           = (if length q' < length q then take (length q - length q') q else []) @ q'"
proof -
  consider "q' = q" | x where "q' = q @ [x]" | w where "q = w # q'"
    using assms by blast
  then show ?thesis
  proof cases
    case 1
    then show ?thesis by simp
  next
    case 2
    show ?thesis unfolding 2 by simp
  next
    case 3
    show ?thesis unfolding 3 by simp
  qed
qed

lemma step_logs:
  "items (connection_queue st) @ enqueued_by st c = dequeued_by st c @ items (connection_queue (step st c))"
  unfolding enqueued_by_def dequeued_by_def Let_def
  by (rule queue_change_logs) (rule step_queue)

lemma run_logs:
  "items (connection_queue st) @ enqueue_log st calls
     = promotion_log st calls @ items (connection_queue (run st calls))"
proof (induction calls arbitrary: st)
  case Nil
  show ?case by (simp add: run_def)
next
  case (Cons c cs)
  have "items (connection_queue st) @ enqueue_log st (c # cs)
          = dequeued_by st c @ items (connection_queue (step st c)) @ enqueue_log (step st c) cs"
    using step_logs [of st c] by simp
  also have "\<dots> = dequeued_by st c @ promotion_log (step st c) cs @ items (connection_queue (run (step st c) cs))"
    using Cons.IH [of "step st c"] by simp
  finally show ?case by (simp add: run_def)
qed

text \<open>
  The order in which ids leave the queue.
  From every state of a history from a fresh manager and for every list of later calls:
  the ids in the queue followed by the ids queued later are exactly the ids taken for
  promotion, in the same order, followed by the ids still in the queue; so the
  \<open>k\<close>-th id promoted is the \<open>k\<close>-th id in queueing order. A release of a registered
  connection that enters the critical section with a queue \<open>w # ws\<close> takes \<open>w\<close>, the
  oldest id, and leaves \<open>ws\<close>; \<^verbatim>\<open>start_connection\<close> leaves the queue as it is or
  appends its id at the back.
\<close>

theorem promotion_fifo:
  assumes "st = run (ConnectionManager_init mc) calls"
  shows "items (connection_queue st) @ enqueue_log st later
           = promotion_log st later @ items (connection_queue (run st later))
       \<and> (k < length (promotion_log st later) \<longrightarrow>
            promotion_log st later ! k = (items (connection_queue st) @ enqueue_log st later) ! k)
       \<and> (\<not> lock_held st \<and> map_of (connections st) c = Some conn
            \<and> items (connection_queue st) = w # ws \<longrightarrow>
            dequeued_by st (EndConnection c t e) = [w]
          \<and> items (connection_queue (step st (EndConnection c t e))) = ws)
       \<and> (items (connection_queue (step st (StartConnection timeout e'))) = items (connection_queue st)
          \<or> items (connection_queue (step st (StartConnection timeout e')))
              = items (connection_queue st) @ [uuid1 e'])"
proof (intro conjI impI)
  show logs: "items (connection_queue st) @ enqueue_log st later
           = promotion_log st later @ items (connection_queue (run st later))"
    by (rule run_logs)
  show "promotion_log st later ! k = (items (connection_queue st) @ enqueue_log st later) ! k"
    if "k < length (promotion_log st later)"
    using that by (simp add: logs nth_append)
next
  assume hyp: "\<not> lock_held st \<and> map_of (connections st) c = Some conn
     \<and> items (connection_queue st) = w # ws"
  then have total: "total_requests (metrics st) \<noteq> 0"
    using registered_total_requests assms by blast
  with hyp show tail: "items (connection_queue (step st (EndConnection c t e))) = ws"
    by (simp add: end_connection_queue del: step.simps)
  with hyp show "dequeued_by st (EndConnection c t e) = [w]"
    by (simp add: dequeued_by_def del: step.simps)
next
  show "items (connection_queue (step st (StartConnection timeout e'))) = items (connection_queue st)
      \<or> items (connection_queue (step st (StartConnection timeout e')))
          = items (connection_queue st) @ [uuid1 e']"
    by (rule start_connection_queue)
qed

text \<open>
  The theorem with one slot after A, B and C have been started: the queue holds B and
  C, and the release of A takes B.
\<close>

theorem promotion_fifo_witness:
  "\<not> lock_held one_slot_three_started
   \<and> map fst (connections one_slot_three_started) = [''A'', ''B'', ''C'']
   \<and> items (connection_queue one_slot_three_started) = [''B'', ''C'']
   \<and> promotion_log one_slot_three_started
        [EndConnection ''A'' 5 (env_at ''D'' 5), EndConnection ''B'' 6 (env_at ''E'' 6)] = [''B'']
   \<and> dequeued_by one_slot_three_started (EndConnection ''A'' 5 (env_at ''D'' 5)) = [''B'']
   \<and> items (connection_queue (step one_slot_three_started (EndConnection ''A'' 5 (env_at ''D'' 5)))) = [''C'']
   \<and> items (connection_queue (step one_slot_three_started (StartConnection (TInt 30) (env_at ''D'' 5))))
       = [''B'', ''C'', ''D'']"
  using promotion_fifo [of one_slot_three_started 1
      "[StartConnection (TInt 30) (env_at ''A'' 0), StartConnection (TInt 30) (env_at ''B'' 1),
        StartConnection (TInt 30) (env_at ''C'' 2)]"
      "[EndConnection ''A'' 5 (env_at ''D'' 5), EndConnection ''B'' 6 (env_at ''E'' 6)]" 0
      "''A''" "the (map_of (connections one_slot_three_started) ''A'')" "''B''" "[''C'']"
      5 "env_at ''D'' 5" "TInt 30" "env_at ''D'' 5"]
  by (simp add: one_slot_three_started_def history_defs eval_defs dequeued_by_def)



lemma promotion_log_blocked: "lock_held st \<Longrightarrow> promotion_log st calls = []"
proof (induction calls)
  case Nil
  show ?case by simp
next
  case (Cons c cs)
  have "step st c = st"
    using Cons.prems by (cases c) (simp_all add: start_connection_blocked end_connection_blocked)
  then show ?case
    using Cons by (simp add: dequeued_by_def)
qed

lemma dequeue_takes_lock:
  "dequeued_by st c \<noteq> [] \<Longrightarrow> lock_held (step st c)"
proof (cases c)
  case (StartConnection timeout e)
  assume "dequeued_by st c \<noteq> []"
  then show ?thesis
    using start_connection_queue [of st timeout e] StartConnection
    by (auto simp: dequeued_by_def Let_def split: if_splits)
next
  case (EndConnection conn_id t e)
  assume "dequeued_by st c \<noteq> []"
  then have "length (items (connection_queue (step st c))) < length (items (connection_queue st))"
    by (auto simp: dequeued_by_def Let_def split: if_splits)
  then show ?thesis
    using EndConnection 
    by (auto simp: end_defs split: option.splits list.splits if_splits)
qed

lemma dequeued_by_length: "length (dequeued_by st c) \<le> 1"
  using step_queue [of st c] by (auto simp: dequeued_by_def Let_def)

lemma promotion_log_length: "length (promotion_log st calls) \<le> 1"
proof (induction calls arbitrary: st)
  case Nil
  show ?case by simp
next
  case (Cons c cs)
  show ?case
  proof (cases "dequeued_by st c = []")
    case True
    then show ?thesis using Cons.IH [of "step st c"] by simp
  next
    case False
    then have "promotion_log (step st c) cs = []"
      by (simp add: dequeue_takes_lock promotion_log_blocked)
    then show ?thesis using dequeued_by_length [of st c] by simp
  qed
qed


section \<open>Deadlines of waiters\<close>

text \<open>
  Claim C7 (a waiter whose deadline has passed is removed from the wait queue and no
  later release promotes it). The code with one slot taken by A: B arrives at time 1
  with timeout 0, so that its deadline is 1; the call is not rejected, it returns B and
  leaves B in the queue, where nothing but a release ever removes an item. The release
  of the unrelated connection A at time 5 finds B there, takes it from the queue for
  promotion and counts one queued connection less.
\<close>

theorem expired_waiter_taken_for_promotion:
  "spec_deadline (TInt 0) (env_at ''B'' 1) = Some 1
   \<and> return_value (start_connection one_slot_taken (TInt 0) (env_at ''B'' 1)) = Some (Some ''B'')
   \<and> state_after (start_connection one_slot_taken (TInt 0) (env_at ''B'' 1)) = one_slot_zero_timeout
   \<and> items (connection_queue one_slot_zero_timeout) = [''B'']
   \<and> get_nowait (connection_queue one_slot_zero_timeout) = Inr (''B'', \<lparr>maxsize = 0, items = []\<rparr>)
   \<and> dequeued_by one_slot_zero_timeout (EndConnection ''A'' 5 (env_at ''C'' 5)) = [''B'']
   \<and> queued_connections (metrics one_slot_zero_timeout) = 1
   \<and> queued_connections (metrics (step one_slot_zero_timeout (EndConnection ''A'' 5 (env_at ''C'' 5)))) = 0"
  by (simp add: one_slot_taken_def one_slot_zero_timeout_def spec_deadline_def history_defs eval_defs
        dequeued_by_def)

section \<open>The rejection branch\<close>

lemma run_lock_free_start:
  assumes "maxsize (connection_queue st) = 0" and "\<not> lock_held st"
  shows "return_value (start_connection st timeout e) = Some (Some (uuid1 e))"
  using assms by (simp add: start_defs put_unbounded)

lemma start_connection_never_None:
  assumes "maxsize (connection_queue st) = 0"
  shows "return_value (start_connection st timeout e) \<noteq> Some None"
    and "\<not> is_Raises (start_connection st timeout e)"
  using assms by (simp_all add: start_defs put_unbounded)

text \<open>
  Claim C10 as it is stated (after every list of calls \<^verbatim>\<open>start_connection\<close>
  returns an id) fails once a release has blocked with the lock held: after A and B
  have been started with one slot and A has been released, a further
  \<^verbatim>\<open>start_connection\<close> blocks on the lock and returns nothing.
\<close>

theorem start_connection_blocks_after_deadlock:
  "lock_held one_slot_after_release
   \<and> start_connection one_slot_after_release (TInt 30) (env_at ''D'' 6) = Blocks one_slot_after_release
   \<and> return_value (start_connection one_slot_after_release (TInt 30) (env_at ''D'' 6)) = None"
  by (simp add: one_slot_after_release_def history_defs eval_defs)

text \<open>
  Claim C10, amended. In every state of a history from a fresh manager the queue has
  \<open>maxsize\<close> 0, so \<^verbatim>\<open>put\<close> appends the item and never raises \<^verbatim>\<open>Full\<close>;
  \<open>rejected_connections\<close> is 0; \<^verbatim>\<open>start_connection\<close> never returns
  \<^verbatim>\<open>None\<close> and never raises; and whenever the lock is free it returns its new id.
\<close>

theorem rejection_branch_unreachable:
  assumes "st = run (ConnectionManager_init mc) calls"
  shows "maxsize (connection_queue st) = 0
       \<and> put (connection_queue st) x timeout
           = Inr ((connection_queue st)\<lparr>items := items (connection_queue st) @ [x]\<rparr>)
       \<and> rejected_connections (metrics st) = 0
       \<and> return_value (start_connection st timeout e) \<noteq> Some None
       \<and> \<not> is_Raises (start_connection st timeout e)
       \<and> (\<not> lock_held st \<longrightarrow> return_value (start_connection st timeout e) = Some (Some (uuid1 e)))"
proof -
  have unbounded: "maxsize (connection_queue st) = 0"
    and none_rejected: "rejected_connections (metrics st) = 0"
    using run_unbounded_no_rejection [of mc calls] assms by simp_all
  have "put (connection_queue st) x timeout
          = Inr ((connection_queue st)\<lparr>items := items (connection_queue st) @ [x]\<rparr>)"
    using unbounded by (simp add: put_unbounded)
  moreover have "\<not> lock_held st \<longrightarrow> return_value (start_connection st timeout e) = Some (Some (uuid1 e))"
    using run_lock_free_start [OF unbounded] by blast
  ultimately show ?thesis
    using unbounded none_rejected start_connection_never_None [OF unbounded, of timeout e]
    by blast
qed

text \<open>The theorem with one slot taken and timeout 0: the call returns the id B.\<close>

theorem rejection_branch_unreachable_witness:
  "\<not> lock_held one_slot_taken
   \<and> int (length (connections one_slot_taken)) \<ge> max_concurrent one_slot_taken
   \<and> rejected_connections (metrics one_slot_taken) = 0
   \<and> return_value (start_connection one_slot_taken (TInt 0) (env_at ''B'' 1)) = Some (Some ''B'')"
  using rejection_branch_unreachable [of one_slot_taken 1 "[StartConnection (TInt 30) (env_at ''A'' 0)]"
      "''B''" "TInt 0" "env_at ''B'' 1"]
  by (simp add: one_slot_taken_def history_defs start_defs put_def)

end
